theory Spec2Isabelle
  imports Main "HOL-Library.Sublist"
begin

section \<open>The entry point of packer: data\<close>

text \<open>
  The program is the \<^verbatim>\<open>main\<close> package of packer (\<^verbatim>\<open>packer.go\<close>): \<^verbatim>\<open>main\<close>,
  \<^verbatim>\<open>extractMachineReadable\<close> and \<^verbatim>\<open>loadConfig\<close>. Everything \<^verbatim>\<open>main\<close> does is an effect
  on the outside (the environment, files, the log, the packages \<^verbatim>\<open>packer\<close> and
  \<^verbatim>\<open>plugin\<close>), so a run is modelled as the list of the effects it performs, in order,
  computed from a record that fixes what each outside call answers.
\<close>

text \<open>A Go \<^verbatim>\<open>error\<close> value, by the text its \<^verbatim>\<open>Error()\<close> method returns.\<close>

datatype error = Error string

fun error_text :: "error \<Rightarrow> string" where
  "error_text (Error s) = s"

text \<open>
  The \<^verbatim>\<open>io.Writer\<close> values the file uses: \<^verbatim>\<open>ioutil.Discard\<close>, \<^verbatim>\<open>os.Stderr\<close>,
  \<^verbatim>\<open>os.Stdout\<close> and the \<^verbatim>\<open>*os.File\<close> that \<^verbatim>\<open>os.Create(path)\<close> returns.
\<close>

datatype writer = Discard | Stderr | Stdout | File string

text \<open>The \<^verbatim>\<open>io.Reader\<close> values handed to \<^verbatim>\<open>decodeConfig\<close>.\<close>

datatype reader = BufferString string | FileReader string

text \<open>
  The fields of \<^verbatim>\<open>packer.EnvironmentConfig\<close> that \<^verbatim>\<open>main\<close> assigns. The type is declared
  outside this file; a value that \<^verbatim>\<open>main\<close> does not build itself (it comes from
  \<^verbatim>\<open>packer.DefaultEnvironmentConfig()\<close>) is an \<open>Other\<close> value with a name. The component
  loaders are the method values \<^verbatim>\<open>config.LoadBuilder\<close>, ... bound to the loaded
  configuration.
\<close>

datatype cache = OtherCache string | FileCache string

datatype ui = OtherUi string | MachineReadableUi writer

datatype 'cfg loader =
    OtherLoader string
  | LoadBuilder 'cfg
  | LoadCommand 'cfg
  | LoadHook 'cfg
  | LoadPostProcessor 'cfg
  | LoadProvisioner 'cfg

record 'cfg ComponentFinder =
  Builder :: "'cfg loader"
  Command :: "'cfg loader"
  Hook :: "'cfg loader"
  PostProcessor :: "'cfg loader"
  Provisioner :: "'cfg loader"

record 'cfg EnvironmentConfig =
  Cache :: cache
  Commands :: "string list"
  Components :: "'cfg ComponentFinder"
  Ui :: ui

text \<open>An operand of a \<^verbatim>\<open>Printf\<close>-style call: a string, an error or the configuration.\<close>

datatype 'cfg arg = S string | E error | C 'cfg

text \<open>
  The effects of a run. \<open>WriteTo\<close> is \<^verbatim>\<open>fmt.Fprintf\<close> with its format string and
  operands; \<open>LogPrintf\<close> and \<open>LogPrintln\<close> carry the writer that is the log's output when
  the call is made. \<open>Exit\<close> is \<^verbatim>\<open>os.Exit\<close>: nothing follows it, and Go does not run
  deferred calls on it. \<open>Panic\<close> is a run-time panic of \<^verbatim>\<open>main\<close>'s own code.
\<close>

datatype ('cfg, 'env) event =
    CreateFile string
  | WriteTo writer string "'cfg arg list"
  | LogSetOutput writer
  | LogPrintf writer string "'cfg arg list"
  | LogPrintln writer string
  | SetGOMAXPROCS int
  | SetupStdin
  | OpenFile string
  | CloseFile string
  | MakeDirAll string nat
  | DeferCleanupClients
  | CleanupClients
  | NewEnvironmentCall "'cfg EnvironmentConfig"
  | SetupSignalHandlers 'env
  | CliCall 'env "string list"
  | Exit int
  | Panic string

text \<open>
  What the outside answers. \<open>'cfg\<close> is the type \<^verbatim>\<open>config\<close> and \<open>'env\<close> the type
  \<^verbatim>\<open>packer.Environment\<close>, both declared outside this file, as are \<^verbatim>\<open>decodeConfig\<close>,
  \<^verbatim>\<open>configFile\<close>, \<^verbatim>\<open>defaultConfig\<close>, \<^verbatim>\<open>CommandNames\<close> and the version constants: they
  are parameters here. A call that returns \<^verbatim>\<open>(value, error)\<close> answers a sum, except
  \<^verbatim>\<open>configFile\<close> and \<^verbatim>\<open>env.Cli\<close>, whose value the code reads whatever the error is.
\<close>

record ('cfg, 'env) world =
  environ :: "string \<rightharpoonup> string"
  os_Args :: "string list"
  os_Create :: "string \<Rightarrow> error option"
  runtime_NumCPU :: int
  Version :: string
  VersionPrerelease :: string
  GitCommit :: string
  GOOS :: string
  GOARCH :: string
  defaultConfig :: string
  zero_config :: 'cfg
  decodeConfig :: "reader \<Rightarrow> 'cfg \<Rightarrow> error + 'cfg"
  configFile :: "string \<times> error option"
  os_Open :: "string \<Rightarrow> error option"
  os_IsNotExist :: "error \<Rightarrow> bool"
  CommandNames :: "'cfg \<Rightarrow> string list"
  filepath_Abs :: "string \<Rightarrow> error + string"
  os_MkdirAll :: "string \<Rightarrow> error option"
  DefaultEnvironmentConfig :: "'cfg EnvironmentConfig"
  NewEnvironment :: "'cfg EnvironmentConfig \<Rightarrow> error + 'env"
  env_Cli :: "'env \<Rightarrow> string list \<Rightarrow> int \<times> error option"

text \<open>\<^verbatim>\<open>os.Getenv\<close>: the value of the variable, empty when it is not set.\<close>

definition Getenv :: "('cfg, 'env) world \<Rightarrow> string \<Rightarrow> string" where
  "Getenv w key = (case environ w key of None \<Rightarrow> [] | Some v \<Rightarrow> v)"

section \<open>extractMachineReadable\<close>

definition machine_readable_flag :: string where
  "machine_readable_flag = ''-machine-readable''"

text \<open>
  Go's built-in \<^verbatim>\<open>copy(dst[off:], src)\<close> seen from \<^verbatim>\<open>dst\<close>: the sub-slice shares the
  array of \<^verbatim>\<open>dst\<close>, and \<^verbatim>\<open>copy\<close> moves as many elements as the shorter of its two
  operands holds.
\<close>

definition copy_at :: "'a list \<Rightarrow> nat \<Rightarrow> 'a list \<Rightarrow> 'a list" where
  "copy_at dst off src =
     (let n = min (length dst - off) (length src)
      in take off dst @ take n src @ drop (off + n) dst)"

text \<open>
  The loop \<^verbatim>\<open>for i, arg := range args\<close>: \<open>rest\<close> is what is left to visit and \<open>i\<close> the
  index of its head in \<open>args\<close>. \<^verbatim>\<open>make([]string, n)\<close> is \<open>n\<close> empty strings.
\<close>

fun extract_loop :: "string list \<Rightarrow> nat \<Rightarrow> string list \<Rightarrow> string list \<times> bool" where
  "extract_loop args i [] = (args, False)"
| "extract_loop args i (arg # rest) =
     (if arg = machine_readable_flag then
        (let result = replicate (length args - 1) [];
             result = copy_at result 0 (take i args);
             result = copy_at result i (drop (i + 1) args)
         in (result, True))
      else extract_loop args (i + 1) rest)"

definition extractMachineReadable :: "string list \<Rightarrow> string list \<times> bool" where
  "extractMachineReadable args = extract_loop args 0 args"

section \<open>loadConfig\<close>

text \<open>
  \<^verbatim>\<open>loadConfig\<close> returns the effects it performs and its result. \<open>lg\<close> is the output
  of the log while it runs. \<open>config_path\<close> is lines 143 to 153 (the path of the
  configuration file, whether it must exist, and what was logged), \<open>open_config\<close> lines
  160 to 179 (what follows the call of \<^verbatim>\<open>os.Open\<close>). The deferred \<^verbatim>\<open>f.Close()\<close> runs
  when the function returns after a successful \<^verbatim>\<open>os.Open\<close>.
\<close>

definition config_path ::
  "('cfg, 'env) world \<Rightarrow> writer \<Rightarrow> string \<times> bool \<times> ('cfg, 'env) event list" where
  "config_path w lg =
     (if Getenv w ''PACKER_CONFIG'' = [] then
        (case configFile w of
           (path, None) \<Rightarrow> (path, False, [])
         | (path, Some err) \<Rightarrow>
             (path, False,
              [LogPrintf lg ''Error detecting default config file path: %s'' [E err]]))
      else (Getenv w ''PACKER_CONFIG'', True, []))"

definition open_config ::
  "('cfg, 'env) world \<Rightarrow> writer \<Rightarrow> 'cfg \<Rightarrow> string \<Rightarrow> bool \<Rightarrow>
   ('cfg, 'env) event list \<times> (error + 'cfg)" where
  "open_config w lg config configFilePath mustExist =
     (case os_Open w configFilePath of
        Some err \<Rightarrow>
          if \<not> os_IsNotExist w err then ([], Inl err)
          else if mustExist then ([], Inl err)
          else ([LogPrintln lg ''File doesn't exist, but doesn't need to. Ignoring.''],
                Inr config)
      | None \<Rightarrow>
          (case decodeConfig w (FileReader configFilePath) config of
             Inl err \<Rightarrow> ([CloseFile configFilePath], Inl err)
           | Inr config' \<Rightarrow> ([CloseFile configFilePath], Inr config')))"

definition loadConfig ::
  "('cfg, 'env) world \<Rightarrow> writer \<Rightarrow> ('cfg, 'env) event list \<times> (error + 'cfg)" where
  "loadConfig w lg =
     (case decodeConfig w (BufferString (defaultConfig w)) (zero_config w) of
        Inl err \<Rightarrow> ([], Inl err)
      | Inr config \<Rightarrow>
          (case config_path w lg of
             (configFilePath, mustExist, detect) \<Rightarrow>
               if configFilePath = [] then (detect, Inr config)
               else
                 (case open_config w lg config configFilePath mustExist of
                    (opened, result) \<Rightarrow>
                      (detect @
                       [LogPrintf lg ''Attempting to open config file: %s'' [S configFilePath],
                        OpenFile configFilePath] @ opened,
                       result))))"

section \<open>main\<close>

text \<open>
  \<^verbatim>\<open>main\<close>, cut where the code can leave: each part returns the effects from its first
  statement to the end of the run. The call deferred on line 83 is recorded when it is
  registered; every way out below it is \<^verbatim>\<open>os.Exit\<close>, which does not run it.
\<close>

text \<open>Lines 107 to 117: the command line is run and the process exits.\<close>

definition main_cli ::
  "('cfg, 'env) world \<Rightarrow> 'env \<Rightarrow> string list \<Rightarrow> ('cfg, 'env) event list" where
  "main_cli w env args =
     [SetupSignalHandlers env, CliCall env args] @
     (case env_Cli w env args of
        (exitCode, Some err) \<Rightarrow>
          [WriteTo Stderr ''Error executing CLI: %s\<newline>'' [S (error_text err)],
           CleanupClients, Exit 1]
      | (exitCode, None) \<Rightarrow> [CleanupClients, Exit exitCode])"

text \<open>Lines 86 to 98: the configuration of the environment.\<close>

definition environment_config ::
  "('cfg, 'env) world \<Rightarrow> 'cfg \<Rightarrow> cache \<Rightarrow> bool \<Rightarrow> 'cfg EnvironmentConfig" where
  "environment_config w config cache machineReadable =
     (let envConfig = DefaultEnvironmentConfig w;
          envConfig = envConfig\<lparr>Cache := cache\<rparr>;
          envConfig = envConfig\<lparr>Commands := CommandNames w config\<rparr>;
          envConfig = envConfig\<lparr>Components :=
            (Components envConfig)\<lparr>Builder := LoadBuilder config\<rparr>\<rparr>;
          envConfig = envConfig\<lparr>Components :=
            (Components envConfig)\<lparr>Command := LoadCommand config\<rparr>\<rparr>;
          envConfig = envConfig\<lparr>Components :=
            (Components envConfig)\<lparr>Hook := LoadHook config\<rparr>\<rparr>;
          envConfig = envConfig\<lparr>Components :=
            (Components envConfig)\<lparr>PostProcessor := LoadPostProcessor config\<rparr>\<rparr>;
          envConfig = envConfig\<lparr>Components :=
            (Components envConfig)\<lparr>Provisioner := LoadProvisioner config\<rparr>\<rparr>
      in if machineReadable then envConfig\<lparr>Ui := MachineReadableUi Stdout\<rparr>
         else envConfig)"

text \<open>
  Lines 81 to 105: the slice \<^verbatim>\<open>os.Args[1:]\<close> panics when \<^verbatim>\<open>os.Args\<close> is empty.
\<close>

definition main_env ::
  "('cfg, 'env) world \<Rightarrow> writer \<Rightarrow> 'cfg \<Rightarrow> cache \<Rightarrow> ('cfg, 'env) event list" where
  "main_env w lg config cache =
     (case os_Args w of
        [] \<Rightarrow> [Panic ''runtime error: slice bounds out of range'']
      | prog # rest \<Rightarrow>
         (case extractMachineReadable rest of
            (args, machineReadable) \<Rightarrow>
              (let envConfig = environment_config w config cache machineReadable
               in [DeferCleanupClients, NewEnvironmentCall envConfig] @
                  (case NewEnvironment w envConfig of
                     Inl err \<Rightarrow>
                       [WriteTo Stderr
                          ''Packer initialization error: \<newline>\<newline>%s\<newline>'' [E err],
                        CleanupClients, Exit 1]
                   | Inr env \<Rightarrow> main_cli w env args))))"

text \<open>Lines 60 to 63: the name of the cache directory, before it is made absolute.\<close>

definition cache_dir_name :: "('cfg, 'env) world \<Rightarrow> string" where
  "cache_dir_name w =
     (let cacheDir = Getenv w ''PACKER_CACHE_DIR''
      in if cacheDir = [] then ''packer_cache'' else cacheDir)"

text \<open>Lines 58 to 77: the cache directory. The mode \<^verbatim>\<open>0755\<close> is 493.\<close>

definition main_cache ::
  "('cfg, 'env) world \<Rightarrow> writer \<Rightarrow> 'cfg \<Rightarrow> ('cfg, 'env) event list" where
  "main_cache w lg config =
     LogPrintf lg ''Packer config: %+v'' [C config] #
     (let cacheDir = cache_dir_name w
      in case filepath_Abs w cacheDir of
           Inl err \<Rightarrow>
             [WriteTo Stderr ''Error preparing cache directory: \<newline>\<newline>%s\<newline>'' [E err],
              Exit 1]
         | Inr cacheDir \<Rightarrow>
             MakeDirAll cacheDir 493 #
             (case os_MkdirAll w cacheDir of
                Some err \<Rightarrow>
                  [WriteTo Stderr
                     ''Error preparing cache directory: \<newline>\<newline>%s\<newline>'' [E err],
                   Exit 1]
              | None \<Rightarrow>
                  LogPrintf lg ''Setting cache directory: %s'' [S cacheDir] #
                  main_env w lg config (FileCache cacheDir)))"

text \<open>Lines 37 to 56: the log's output is set, then the configuration is loaded.\<close>

definition main_config :: "('cfg, 'env) world \<Rightarrow> writer \<Rightarrow> ('cfg, 'env) event list" where
  "main_config w logOutput =
     LogSetOutput logOutput #
     (if Getenv w ''GOMAXPROCS'' = [] then [SetGOMAXPROCS (runtime_NumCPU w)] else []) @
     [LogPrintf logOutput ''Packer Version: %s %s %s''
        [S (Version w), S (VersionPrerelease w), S (GitCommit w)],
      LogPrintf logOutput ''Packer Target OS/Arch: %s %s'' [S (GOOS w), S (GOARCH w)],
      SetupStdin] @
     (case loadConfig w logOutput of
        (loading, Inl err) \<Rightarrow>
          loading @
          [WriteTo Stderr ''Error loading configuration: \<newline>\<newline>%s\<newline>'' [E err],
           Exit 1]
      | (loading, Inr config) \<Rightarrow> loading @ main_cache w logOutput config)"

text \<open>Lines 20 to 35: where the log goes.\<close>

definition main :: "('cfg, 'env) world \<Rightarrow> ('cfg, 'env) event list" where
  "main w =
     (if Getenv w ''PACKER_LOG'' \<noteq> [] then
        (let logPath = Getenv w ''PACKER_LOG_PATH''
         in if logPath \<noteq> [] then
              CreateFile logPath #
              (case os_Create w logPath of
                 Some err \<Rightarrow>
                   [WriteTo Stderr ''Couldn't open '%s' for logging: %s'' [S logPath, E err],
                    Exit 1]
               | None \<Rightarrow> main_config w (File logPath))
            else main_config w Stderr)
      else main_config w Discard)"

section \<open>Reading a run\<close>

text \<open>The writer a log call of the run wrote to, when the effect is a log call.\<close>

fun log_target :: "('cfg, 'env) event \<Rightarrow> writer option" where
  "log_target (LogPrintf wr f as) = Some wr"
| "log_target (LogPrintln wr s) = Some wr"
| "log_target ev = None"

definition log_targets :: "('cfg, 'env) event list \<Rightarrow> writer list" where
  "log_targets tr = List.map_filter log_target tr"

text \<open>
  The effects of a run before line 81, the creation of the log file apart: they touch
  neither the plugins nor the environment, and every log call among them writes to \<open>lg\<close>.
\<close>

fun startup_event :: "writer \<Rightarrow> ('cfg, 'env) event \<Rightarrow> bool" where
  "startup_event lg (LogSetOutput wr) = (wr = lg)"
| "startup_event lg (LogPrintf wr f as) = (wr = lg)"
| "startup_event lg (LogPrintln wr s) = (wr = lg)"
| "startup_event lg (SetGOMAXPROCS n) = True"
| "startup_event lg SetupStdin = True"
| "startup_event lg (OpenFile p) = True"
| "startup_event lg (CloseFile p) = True"
| "startup_event lg (MakeDirAll p m) = True"
| "startup_event lg ev = False"

section \<open>Example runs\<close>

text \<open>
  A world in which every outside call succeeds: no variable is set, there is no
  configuration file, the command line is \<^verbatim>\<open>packer build -machine-readable t.json\<close> and
  the command exits with 3. The configuration is a list of command names, the environment
  is its number.
\<close>

definition example_world :: "(string list, nat) world" where
  "example_world =
     \<lparr>environ = Map.empty,
      os_Args = [''packer'', ''build'', ''-machine-readable'', ''t.json''],
      os_Create = (\<lambda>p. None),
      runtime_NumCPU = 4,
      Version = ''0.3.0'',
      VersionPrerelease = ''dev'',
      GitCommit = ''abc'',
      GOOS = ''linux'',
      GOARCH = ''amd64'',
      defaultConfig = ''{}'',
      zero_config = [],
      decodeConfig = (\<lambda>r c. Inr (''build'' # c)),
      configFile = ([], None),
      os_Open = (\<lambda>p. None),
      os_IsNotExist = (\<lambda>e. False),
      CommandNames = (\<lambda>c. c),
      filepath_Abs = (\<lambda>p. Inr (''/work/'' @ p)),
      os_MkdirAll = (\<lambda>p. None),
      DefaultEnvironmentConfig =
        \<lparr>Cache = OtherCache ''none'',
         Commands = [],
         Components =
           \<lparr>Builder = OtherLoader ''nil'', Command = OtherLoader ''nil'',
            Hook = OtherLoader ''nil'', PostProcessor = OtherLoader ''nil'',
            Provisioner = OtherLoader ''nil''\<rparr>,
         Ui = OtherUi ''default''\<rparr>,
      NewEnvironment = (\<lambda>ec. Inr 7),
      env_Cli = (\<lambda>env args. (3, None))\<rparr>"

section \<open>The plugin clients and their cleanup\<close>

text \<open>
  \<^verbatim>\<open>plugin.CleanupClients\<close> and the client's \<^verbatim>\<open>Kill\<close> are code of the package
  \<^verbatim>\<open>packer/plugin\<close>, which is not among the sources; \<^verbatim>\<open>main\<close> only calls the former. They
  are written here after sections 4.3 and 4.5 of the specification.
\<close>

datatype client_state = Created | Starting | Connected | InUse | Closing | Exited

record PluginClient =
  subprocess :: nat
  state :: client_state

text \<open>
  A client has a live subprocess from the moment it is spawned until it has exited.
\<close>

definition live :: "PluginClient \<Rightarrow> bool" where
  "live c = (state c = Starting \<or> state c = Connected \<or> state c = InUse \<or> state c = Closing)"

text \<open>
  Modelled from the spec: the method \<^verbatim>\<open>Kill\<close> of a plugin client (section 4.3), whose code
  is missing. "Kill is valid from any non-terminal state and forces the transition to
  Closing, then Exited, sending a termination signal to the subprocess and, after a grace
  period, an unconditional kill"; it is idempotent, so on an exited client it does
  nothing and reports nothing. \<open>fails\<close> says for which clients the operating system
  reports an error when the signal is sent.
\<close>

definition Kill :: "(PluginClient \<Rightarrow> bool) \<Rightarrow> PluginClient \<Rightarrow> error option \<times> PluginClient" where
  "Kill fails c =
     (if state c = Exited then (None, c)
      else (if fails c then Some (Error ''kill failed'') else None, c\<lparr>state := Exited\<rparr>))"

text \<open>
  Modelled from the spec: \<^verbatim>\<open>plugin.CleanupClients\<close> (section 4.5), whose code is missing.
  "Cleanup iterates the set and calls Kill on each, tolerating (not failing on) individual
  kill errors"; section 7 adds that such failures "are logged, not escalated". The result
  is the set of clients afterwards and the errors that were logged; the cleanup itself
  returns no error.
\<close>

fun plugin_CleanupClients ::
  "(PluginClient \<Rightarrow> bool) \<Rightarrow> PluginClient list \<Rightarrow> PluginClient list \<times> error list" where
  "plugin_CleanupClients fails [] = ([], [])"
| "plugin_CleanupClients fails (c # cs) =
     (case Kill fails c of
        (err, c') \<Rightarrow>
          (case plugin_CleanupClients fails cs of
             (cs', logged) \<Rightarrow>
               (c' # cs', (case err of None \<Rightarrow> [] | Some e \<Rightarrow> [e]) @ logged)))"

section \<open>Validation of a configuration at Prepare time\<close>

text \<open>
  The \<^verbatim>\<open>Prepare\<close> methods of the components are not among the sources (of the amazon
  chroot builder only the tests are). Sections 4.2, 7 and 8 of the specification describe
  the validation they share: a configuration is a "loosely-typed key/value bundle (string
  keys, values limited to primitives, sequences, and nested bundles)".
\<close>

datatype config_value =
    Str string
  | Num int
  | Bool bool
  | Seq "config_value list"
  | Bundle "(string \<times> config_value) list"

datatype value_kind = KStr | KNum | KBool | KSeq | KBundle

fun kind_of :: "config_value \<Rightarrow> value_kind" where
  "kind_of (Str s) = KStr"
| "kind_of (Num n) = KNum"
| "kind_of (Bool b) = KBool"
| "kind_of (Seq vs) = KSeq"
| "kind_of (Bundle kvs) = KBundle"

text \<open>What a component expects of one key of its configuration.\<close>

record field =
  field_name :: string
  field_kind :: value_kind
  field_required :: bool

datatype sub_error = MissingField string | WrongType string value_kind

datatype config_error = ConfigError "sub_error list"

text \<open>The problem with one field, if there is one: it is required and missing, or its
  value has the wrong type.\<close>

definition check_field :: "(string \<rightharpoonup> config_value) \<Rightarrow> field \<Rightarrow> sub_error option" where
  "check_field config f =
     (case config (field_name f) of
        None \<Rightarrow> if field_required f then Some (MissingField (field_name f)) else None
      | Some v \<Rightarrow>
          if kind_of v = field_kind f then None
          else Some (WrongType (field_name f) (field_kind f)))"

text \<open>
  Modelled from the spec: the validation a component's \<^verbatim>\<open>Prepare\<close> performs (section 7),
  whose code is missing. "Validation errors are accumulated and returned together rather
  than failing fast on the first problem"; a ConfigError "may aggregate multiple
  sub-errors into one report". The result is \<open>None\<close> for Go's \<^verbatim>\<open>nil\<close>.
\<close>

definition Prepare :: "field list \<Rightarrow> (string \<rightharpoonup> config_value) \<Rightarrow> config_error option" where
  "Prepare fs config =
     (let errs = List.map_filter (check_field config) fs
      in if errs = [] then None else Some (ConfigError errs))"

text \<open>
  Scenario D of section 8: a field that is required and missing, and a field of the wrong
  type.
\<close>

definition scenario_fields :: "field list" where
  "scenario_fields =
     [\<lparr>field_name = ''name'', field_kind = KStr, field_required = True\<rparr>,
      \<lparr>field_name = ''source'', field_kind = KStr, field_required = True\<rparr>,
      \<lparr>field_name = ''mounts'', field_kind = KSeq, field_required = False\<rparr>]"

definition scenario_config :: "string \<rightharpoonup> config_value" where
  "scenario_config = [''source'' \<mapsto> Str ''foo'', ''mounts'' \<mapsto> Num 3]"

section \<open>extractMachineReadable: what it returns\<close>

lemma extract_loop_spec:
  "args = pre @ rest \<Longrightarrow> i = length pre \<Longrightarrow>
   extract_loop args i rest =
     (if machine_readable_flag \<in> set rest
      then (pre @ remove1 machine_readable_flag rest, True) else (args, False))"
proof (induction rest arbitrary: pre i)
  case Nil
  then show ?case by simp
next
  case (Cons a rest)
  show ?case
  proof (cases "a = machine_readable_flag")
    case True
    with Cons.prems show ?thesis
      by (simp add: copy_at_def Let_def)
  next
    case False
    have "extract_loop args (i + 1) rest =
      (if machine_readable_flag \<in> set rest
       then ((pre @ [a]) @ remove1 machine_readable_flag rest, True) else (args, False))"
      by (rule Cons.IH) (use Cons.prems in simp_all)
    with False show ?thesis by auto
  qed
qed

lemma extractMachineReadable_remove1:
  "extractMachineReadable args =
     (if machine_readable_flag \<in> set args
      then (remove1 machine_readable_flag args, True) else (args, False))"
  using extract_loop_spec [of args "[]" args 0] by (simp add: extractMachineReadable_def)


section \<open>The shape of a run\<close>

lemma config_path_events:
  "config_path w lg = (p, m, d) \<Longrightarrow> list_all (startup_event lg) d"
  by (auto simp: config_path_def split: prod.splits option.splits if_splits)

lemma open_config_events:
  "open_config w lg c p m = (evs, r) \<Longrightarrow> list_all (startup_event lg) evs"
  by (auto simp: open_config_def split: sum.splits option.splits if_splits)

lemma loadConfig_events:
  "loadConfig w lg = (evs, r) \<Longrightarrow> list_all (startup_event lg) evs"
  by (auto simp: loadConfig_def split: sum.splits prod.splits if_splits
      dest: config_path_events open_config_events)

lemma config_path_lg:
  "fst (config_path w lg) = fst (config_path w lg') \<and>
   fst (snd (config_path w lg)) = fst (snd (config_path w lg'))"
  by (simp add: config_path_def split: prod.split option.split)

lemma open_config_lg: "snd (open_config w lg c p m) = snd (open_config w lg' c p m)"
  by (simp add: open_config_def split: sum.split option.split)

lemma loadConfig_lg: "snd (loadConfig w lg) = snd (loadConfig w lg')"
proof (cases "decodeConfig w (BufferString (defaultConfig w)) (zero_config w)")
  case (Inl err)
  then show ?thesis by (simp add: loadConfig_def)
next
  case (Inr config)
  obtain p m d where a: "config_path w lg = (p, m, d)" by (cases "config_path w lg") auto
  obtain p' m' d' where b: "config_path w lg' = (p', m', d')"
    by (cases "config_path w lg'") auto
  from a b config_path_lg [of w lg lg'] have eq: "p' = p" "m' = m" by simp_all
  show ?thesis using Inr a b eq open_config_lg [of w lg config p m lg']
    by (auto simp: loadConfig_def split: prod.splits)
qed

lemma main_cache_cases:
  obtains
    (abs_fail) pre err where
      "main_cache w lg config =
         pre @ [WriteTo Stderr ''Error preparing cache directory: \<newline>\<newline>%s\<newline>'' [E err],
                Exit 1]"
      "list_all (startup_event lg) pre"
      "filepath_Abs w (cache_dir_name w) = Inl err"
  | (mkdir_fail) pre p err where
      "main_cache w lg config =
         pre @ [WriteTo Stderr ''Error preparing cache directory: \<newline>\<newline>%s\<newline>'' [E err],
                Exit 1]"
      "list_all (startup_event lg) pre"
      "filepath_Abs w (cache_dir_name w) = Inr p" "os_MkdirAll w p = Some err"
  | (env) pre p where
      "main_cache w lg config = pre @ main_env w lg config (FileCache p)"
      "list_all (startup_event lg) pre"
      "filepath_Abs w (cache_dir_name w) = Inr p" "os_MkdirAll w p = None"
proof (cases "filepath_Abs w (cache_dir_name w)")
  case (Inl err)
  show thesis
    by (rule abs_fail [where pre = "[LogPrintf lg ''Packer config: %+v'' [C config]]"
                         and err = err])
       (use Inl in \<open>simp_all add: main_cache_def\<close>)
next
  case (Inr p)
  show thesis
  proof (cases "os_MkdirAll w p")
    case None
    show thesis
      by (rule env [where pre = "[LogPrintf lg ''Packer config: %+v'' [C config],
                         MakeDirAll p 493,
                         LogPrintf lg ''Setting cache directory: %s'' [S p]]" and p = p])
         (use Inr None in \<open>simp_all add: main_cache_def\<close>)
  next
    case (Some err)
    show thesis
      by (rule mkdir_fail [where pre = "[LogPrintf lg ''Packer config: %+v'' [C config],
                                MakeDirAll p 493]" and p = p and err = err])
         (use Inr Some in \<open>simp_all add: main_cache_def\<close>)
  qed
qed

lemma main_config_cases:
  obtains
    (config_fail) pre err where
      "main_config w lg =
         pre @ [WriteTo Stderr ''Error loading configuration: \<newline>\<newline>%s\<newline>'' [E err],
                Exit 1]"
      "list_all (startup_event lg) pre"
      "snd (loadConfig w lg) = Inl err"
  | (cache_fail) pre config err where
      "main_config w lg =
         pre @ [WriteTo Stderr ''Error preparing cache directory: \<newline>\<newline>%s\<newline>'' [E err],
                Exit 1]"
      "list_all (startup_event lg) pre"
      "snd (loadConfig w lg) = Inr config"
      "filepath_Abs w (cache_dir_name w) = Inl err \<or>
       (\<exists>p. filepath_Abs w (cache_dir_name w) = Inr p \<and> os_MkdirAll w p = Some err)"
  | (env) pre config p where
      "main_config w lg = pre @ main_env w lg config (FileCache p)"
      "list_all (startup_event lg) pre"
      "snd (loadConfig w lg) = Inr config"
      "filepath_Abs w (cache_dir_name w) = Inr p" "os_MkdirAll w p = None"
proof (cases "loadConfig w lg")
  case (Pair loading r)
  define start :: "('a, 'b) event list" where
    "start = LogSetOutput lg #
       (if Getenv w ''GOMAXPROCS'' = [] then [SetGOMAXPROCS (runtime_NumCPU w)] else []) @
       [LogPrintf lg ''Packer Version: %s %s %s''
          [S (Version w), S (VersionPrerelease w), S (GitCommit w)],
        LogPrintf lg ''Packer Target OS/Arch: %s %s'' [S (GOOS w), S (GOARCH w)],
        SetupStdin] @ loading"
  have start: "list_all (startup_event lg) start"
    using loadConfig_events [OF Pair] by (simp add: start_def)
  show thesis
  proof (cases r)
    case (Inl err)
    show thesis
      by (rule config_fail [where pre = start and err = err])
         (use Pair Inl start in \<open>simp_all add: main_config_def start_def\<close>)
  next
    case (Inr config)
    have eq: "main_config w lg = start @ main_cache w lg config"
      using Pair Inr by (simp add: main_config_def start_def)
    show thesis
    proof (cases rule: main_cache_cases [of w lg config])
      case (abs_fail pre err)
      show thesis
        by (rule cache_fail [where pre = "start @ pre" and err = err and config = config])
           (use Pair Inr start eq abs_fail in simp_all)
    next
      case (mkdir_fail pre p err)
      show thesis
        by (rule cache_fail [where pre = "start @ pre" and err = err and config = config])
           (use Pair Inr start eq mkdir_fail in simp_all)
    next
      case (env pre p)
      show thesis
        by (rule that(3) [where pre = "start @ pre" and p = p and config = config])
           (use Pair Inr start eq env in simp_all)
    qed
  qed
qed

lemma startup_event_mem:
  "list_all (startup_event lg) pre \<Longrightarrow> e \<in> set pre \<Longrightarrow> startup_event lg e"
  by (simp add: list_all_iff)

lemma main_log_cases:
  obtains
    (log_fail) p err where
      "Getenv w ''PACKER_LOG'' \<noteq> []" "Getenv w ''PACKER_LOG_PATH'' = p" "p \<noteq> []"
      "os_Create w p = Some err"
      "main w = [CreateFile p,
                 WriteTo Stderr ''Couldn't open '%s' for logging: %s'' [S p, E err], Exit 1]"
  | (to_file) p where
      "Getenv w ''PACKER_LOG'' \<noteq> []" "Getenv w ''PACKER_LOG_PATH'' = p" "p \<noteq> []"
      "os_Create w p = None" "main w = CreateFile p # main_config w (File p)"
  | (to_stderr)
      "Getenv w ''PACKER_LOG'' \<noteq> []" "Getenv w ''PACKER_LOG_PATH'' = []"
      "main w = main_config w Stderr"
  | (discard)
      "Getenv w ''PACKER_LOG'' = []" "main w = main_config w Discard"
proof (cases "Getenv w ''PACKER_LOG'' = []")
  case True
  then show thesis by (intro discard) (simp_all add: main_def Let_def)
next
  case False
  show thesis
  proof (cases "Getenv w ''PACKER_LOG_PATH'' = []")
    case True
    with False show thesis by (intro to_stderr) (simp_all add: main_def Let_def)
  next
    case nonempty: False
    show thesis
    proof (cases "os_Create w (Getenv w ''PACKER_LOG_PATH'')")
      case None
      with False nonempty show thesis
        by (intro to_file [of "Getenv w ''PACKER_LOG_PATH''"]) (simp_all add: main_def Let_def)
    next
      case (Some err)
      with False nonempty show thesis
        by (intro log_fail [of "Getenv w ''PACKER_LOG_PATH''" err]) (simp_all add: main_def Let_def)
    qed
  qed
qed

lemma main_cases:
  obtains
    (early) pre f a where
      "main w = pre @ [WriteTo Stderr f a, Exit 1]"
      "\<And>e. e \<in> set pre \<Longrightarrow> (\<exists>p. e = CreateFile p) \<or> (\<exists>lg. startup_event lg e)"
  | (env) pre lg config p where
      "main w = pre @ main_env w lg config (FileCache p)"
      "\<And>e. e \<in> set pre \<Longrightarrow> (\<exists>p. e = CreateFile p) \<or> (\<exists>lg. startup_event lg e)"
      "\<And>lg'. snd (loadConfig w lg') = Inr config"
      "filepath_Abs w (cache_dir_name w) = Inr p" "os_MkdirAll w p = None"
proof -
  note env_rule = env
  have config: thesis if m: "main w = created @ main_config w lg"
    and c: "created = [] \<or> (\<exists>p. created = [CreateFile p])" for created lg
  proof (cases rule: main_config_cases [of w lg])
    case (config_fail pre err)
    show thesis
      by (rule early [where pre = "created @ pre"])
         (use m c config_fail in \<open>auto dest: startup_event_mem\<close>)
  next
    case (cache_fail pre config err)
    show thesis
      by (rule early [where pre = "created @ pre"])
         (use m c cache_fail in \<open>auto dest: startup_event_mem\<close>)
  next
    case (env pre config p)
    have "snd (loadConfig w lg') = Inr config" for lg'
      using env(3) loadConfig_lg [of w lg lg'] by simp
    then show thesis
      using m c env
      by (intro env_rule [where pre = "created @ pre" and lg = lg and config = config and p = p])
         (auto dest: startup_event_mem)
  qed
  show thesis
  proof (cases rule: main_log_cases [of w])
    case (log_fail p err)
    show thesis
      by (rule early [where pre = "[CreateFile p]"]) (use log_fail in auto)
  next
    case (to_file p)
    then show thesis by (intro config [of "[CreateFile p]" "File p"]) auto
  next
    case to_stderr
    then show thesis by (intro config [of "[]" Stderr]) auto
  next
    case discard
    then show thesis by (intro config [of "[]" Discard]) auto
  qed
qed


section \<open>The claims about the entry point\<close>

lemmas run_defs =
  main_def main_config_def main_cache_def main_env_def main_cli_def environment_config_def
  loadConfig_def config_path_def
  open_config_def cache_dir_name_def Getenv_def extractMachineReadable_def
  machine_readable_flag_def copy_at_def Let_def

lemma remove1_takeWhile:
  "x \<in> set xs \<Longrightarrow>
   remove1 x xs = takeWhile (\<lambda>a. a \<noteq> x) xs @ tl (dropWhile (\<lambda>a. a \<noteq> x) xs)"
  by (induction xs) auto

text \<open>
  C9. For every argument list, \<^verbatim>\<open>extractMachineReadable\<close> removes exactly the first
  occurrence of the flag: the result is the arguments before that occurrence followed by
  those after it, in their order, one shorter than the input, and the flag is reported
  found. When the flag is absent the input is returned unchanged and the flag is reported
  not found.
\<close>

theorem extractMachineReadable_first_occurrence:
  "extractMachineReadable args =
     (if machine_readable_flag \<in> set args
      then (takeWhile (\<lambda>a. a \<noteq> machine_readable_flag) args @
            tl (dropWhile (\<lambda>a. a \<noteq> machine_readable_flag) args), True)
      else (args, False)) \<and>
   fst (extractMachineReadable args) = remove1 machine_readable_flag args \<and>
   length (fst (extractMachineReadable args)) =
     (if machine_readable_flag \<in> set args then length args - 1 else length args)"
proof (cases "machine_readable_flag \<in> set args")
  case True
  then show ?thesis
    by (simp add: extractMachineReadable_remove1 remove1_takeWhile [symmetric]
        length_remove1)
next
  case False
  then show ?thesis
    by (simp add: extractMachineReadable_remove1 remove1_idem)
qed

theorem extractMachineReadable_first_occurrence_witness:
  "extractMachineReadable [''build'', ''-machine-readable'', ''t.json'', ''-machine-readable'']
     = ([''build'', ''t.json'', ''-machine-readable''], True) \<and>
   extractMachineReadable [''build'', ''t.json''] = ([''build'', ''t.json''], False)"
  using extractMachineReadable_first_occurrence
          [of "[''build'', ''-machine-readable'', ''t.json'', ''-machine-readable'']"]
        extractMachineReadable_first_occurrence [of "[''build'', ''t.json'']"]
  by (simp add: machine_readable_flag_def)

lemma main_cli_suffix:
  "suffix
     (CliCall env args #
      (case env_Cli w env args of
         (exitCode, None) \<Rightarrow> [CleanupClients, Exit exitCode]
       | (exitCode, Some err) \<Rightarrow>
           [WriteTo Stderr ''Error executing CLI: %s\<newline>'' [S (error_text err)],
            CleanupClients, Exit 1]))
     (main_cli w env args)"
  by (simp add: main_cli_def suffix_Cons split: prod.split option.split)

lemma main_cli_cleanup: "\<exists>c. suffix [CleanupClients, Exit c] (main_cli w env args)"
  by (simp add: main_cli_def suffix_Cons split: prod.split option.split)

text \<open>
  What \<open>main_env\<close> does when there is a command line: \<open>fin\<close> is what follows the
  creation of the environment.
\<close>

lemma main_env_cases:
  obtains
    (no_args) "os_Args w = []"
      "main_env w lg config cache = [Panic ''runtime error: slice bounds out of range'']"
  | (env_fail) prog rest ec err where
      "os_Args w = prog # rest"
      "ec = environment_config w config cache (snd (extractMachineReadable rest))"
      "NewEnvironment w ec = Inl err"
      "main_env w lg config cache =
         [DeferCleanupClients, NewEnvironmentCall ec,
          WriteTo Stderr ''Packer initialization error: \<newline>\<newline>%s\<newline>'' [E err],
          CleanupClients, Exit 1]"
  | (cli) prog rest ec env where
      "os_Args w = prog # rest"
      "ec = environment_config w config cache (snd (extractMachineReadable rest))"
      "NewEnvironment w ec = Inr env"
      "main_env w lg config cache =
         [DeferCleanupClients, NewEnvironmentCall ec] @
         main_cli w env (fst (extractMachineReadable rest))"
proof (cases "os_Args w")
  case Nil
  then show thesis by (intro no_args) (simp_all add: main_env_def)
next
  case (Cons prog rest)
  define ec where "ec = environment_config w config cache (snd (extractMachineReadable rest))"
  show thesis
  proof (cases "NewEnvironment w ec")
    case (Inl err)
    show thesis
      by (rule env_fail [where prog = prog and rest = rest and ec = ec and err = err])
         (use Cons Inl in \<open>simp_all add: main_env_def ec_def Let_def case_prod_beta\<close>)
  next
    case (Inr env)
    show thesis
      by (rule cli [where prog = prog and rest = rest and ec = ec and env = env])
         (use Cons Inr in \<open>simp_all add: main_env_def ec_def Let_def case_prod_beta\<close>)
  qed
qed

lemma main_env_suffix:
  assumes "DeferCleanupClients \<in> set (main_env w lg config cache)"
  shows "\<exists>c. suffix [CleanupClients, Exit c] (main_env w lg config cache)"
proof (cases rule: main_env_cases [of w lg config cache])
  case no_args
  with assms show ?thesis by simp
next
  case (env_fail prog rest ec err)
  then show ?thesis by (simp add: suffix_Cons)
next
  case (cli prog rest ec env)
  from main_cli_cleanup [of w env "fst (extractMachineReadable rest)"] obtain c
    where "suffix [CleanupClients, Exit c] (main_cli w env (fst (extractMachineReadable rest)))"
    ..
  then have "suffix [CleanupClients, Exit c] (main_env w lg config cache)"
    unfolding cli(4) by (rule suffix_appendI)
  then show ?thesis ..
qed

text \<open>
  C1. A run that reaches line 83, where the cleanup is deferred and the environment
  begins to be constructed, ends by calling \<^verbatim>\<open>plugin.CleanupClients\<close> and then
  \<^verbatim>\<open>os.Exit\<close>, whichever way it ends: the environment cannot be created, the command
  line returns an error, or it returns an exit code.
\<close>

theorem main_cleanup_before_exit:
  assumes "DeferCleanupClients \<in> set (main w)"
  shows "\<exists>c. suffix [CleanupClients, Exit c] (main w)"
proof (cases rule: main_cases [of w])
  case (early pre f a)
  from assms early(1) have "DeferCleanupClients \<in> set pre" by simp
  from early(2) [OF this] show ?thesis by simp
next
  case (env pre lg config p)
  have "DeferCleanupClients \<notin> set pre" using env(2) by fastforce
  with assms env(1) have "DeferCleanupClients \<in> set (main_env w lg config (FileCache p))"
    by simp
  from main_env_suffix [OF this] obtain c
    where "suffix [CleanupClients, Exit c] (main_env w lg config (FileCache p))" ..
  then have "suffix [CleanupClients, Exit c] (main w)"
    unfolding env(1) by (rule suffix_appendI)
  then show ?thesis ..
qed

theorem main_cleanup_before_exit_witness:
  "(DeferCleanupClients \<in> set (main example_world) \<and>
    (\<exists>c. suffix [CleanupClients, Exit c] (main example_world))) \<and>
   (DeferCleanupClients \<in>
      set (main (example_world\<lparr>NewEnvironment := (\<lambda>ec. Inl (Error ''no''))\<rparr>)) \<and>
    (\<exists>c. suffix [CleanupClients, Exit c]
          (main (example_world\<lparr>NewEnvironment := (\<lambda>ec. Inl (Error ''no''))\<rparr>)))) \<and>
   (DeferCleanupClients \<in>
      set (main (example_world\<lparr>env_Cli := (\<lambda>env args. (0, Some (Error ''no'')))\<rparr>)) \<and>
    (\<exists>c. suffix [CleanupClients, Exit c]
          (main (example_world\<lparr>env_Cli := (\<lambda>env args. (0, Some (Error ''no'')))\<rparr>))))"
proof -
  have a: "DeferCleanupClients \<in> set (main example_world)"
    by (simp add: run_defs example_world_def)
  have b: "DeferCleanupClients \<in>
      set (main (example_world\<lparr>NewEnvironment := (\<lambda>ec. Inl (Error ''no''))\<rparr>))"
    by (simp add: run_defs example_world_def)
  have c: "DeferCleanupClients \<in>
      set (main (example_world\<lparr>env_Cli := (\<lambda>env args. (0, Some (Error ''no'')))\<rparr>))"
    by (simp add: run_defs example_world_def)
  show ?thesis
    using a b c main_cleanup_before_exit [OF a] main_cleanup_before_exit [OF b]
      main_cleanup_before_exit [OF c]
    by blast
qed

lemma main_cli_mem:
  "CliCall env' args' \<in> set (main_cli w env args) \<Longrightarrow> env' = env \<and> args' = args"
  by (cases "env_Cli w env args") (auto simp: main_cli_def split: option.splits)

lemma main_cli_no_env:
  "NewEnvironmentCall ec \<notin> set (main_cli w env args)"
  by (cases "env_Cli w env args") (auto simp: main_cli_def split: option.splits)

lemma startup_not_cli:
  assumes "\<And>e. e \<in> set pre \<Longrightarrow> (\<exists>p. e = CreateFile p) \<or> (\<exists>lg. startup_event lg e)"
  shows "CliCall env args \<notin> set pre" "NewEnvironmentCall ec \<notin> set pre"
    "DeferCleanupClients \<notin> set pre"
  using assms by fastforce+

text \<open>
  C3. When \<^verbatim>\<open>env.Cli(args)\<close> returns no error, the run calls the cleanup and exits with
  the code \<^verbatim>\<open>env.Cli\<close> returned. When it returns an error, the run prints the error to
  standard error, calls the cleanup and exits with 1.
\<close>

theorem main_exit_code:
  assumes "CliCall env args \<in> set (main w)"
  shows "(\<forall>c. env_Cli w env args = (c, None) \<longrightarrow>
            suffix [CliCall env args, CleanupClients, Exit c] (main w)) \<and>
         (\<forall>c err. env_Cli w env args = (c, Some err) \<longrightarrow>
            suffix [CliCall env args,
                    WriteTo Stderr ''Error executing CLI: %s\<newline>'' [S (error_text err)],
                    CleanupClients, Exit 1] (main w))"
proof (cases rule: main_cases [of w])
  case (early pre f a)
  with assms startup_not_cli(1) [of pre env args] show ?thesis by auto
next
  case outer: (env pre lg config p)
  have in_env: "CliCall env args \<in> set (main_env w lg config (FileCache p))"
    using assms outer(1) startup_not_cli(1) [of pre env args, OF outer(2)] by simp
  show ?thesis
  proof (cases rule: main_env_cases [of w lg config "FileCache p"])
    case no_args
    with in_env show ?thesis by simp
  next
    case (env_fail prog rest ec err)
    with in_env show ?thesis by simp
  next
    case (cli prog rest ec env')
    from in_env cli(4)
    have "CliCall env args \<in> set (main_cli w env' (fst (extractMachineReadable rest)))"
      by simp
    from main_cli_mem [OF this]
    have eq: "main w = (pre @ [DeferCleanupClients, NewEnvironmentCall ec]) @ main_cli w env args"
      using outer(1) cli(4) by simp
    have "suffix
       (CliCall env args #
        (case env_Cli w env args of
           (exitCode, None) \<Rightarrow> [CleanupClients, Exit exitCode]
         | (exitCode, Some err) \<Rightarrow>
             [WriteTo Stderr ''Error executing CLI: %s\<newline>'' [S (error_text err)],
              CleanupClients, Exit 1]))
       (main w)"
      unfolding eq by (rule suffix_appendI) (rule main_cli_suffix)
    then show ?thesis by auto
  qed
qed

theorem main_exit_code_witness:
  "(CliCall 7 [''build'', ''t.json''] \<in> set (main example_world) \<and>
    suffix [CliCall 7 [''build'', ''t.json''], CleanupClients, Exit 3] (main example_world)) \<and>
   (CliCall 7 [''build'', ''t.json'']
      \<in> set (main (example_world\<lparr>env_Cli := (\<lambda>env args. (0, Some (Error ''no'')))\<rparr>)) \<and>
    suffix [CliCall 7 [''build'', ''t.json''],
            WriteTo Stderr ''Error executing CLI: %s\<newline>'' [S ''no''],
            CleanupClients, Exit 1]
      (main (example_world\<lparr>env_Cli := (\<lambda>env args. (0, Some (Error ''no'')))\<rparr>)))"
proof -
  have a: "CliCall 7 [''build'', ''t.json''] \<in> set (main example_world)"
    by (simp add: run_defs example_world_def)
  have b: "CliCall 7 [''build'', ''t.json'']
      \<in> set (main (example_world\<lparr>env_Cli := (\<lambda>env args. (0, Some (Error ''no'')))\<rparr>))"
    by (simp add: run_defs example_world_def)
  have a_ok: "env_Cli example_world 7 [''build'', ''t.json''] = (3, None)"
    by (simp add: example_world_def)
  have b_err: "env_Cli (example_world\<lparr>env_Cli := (\<lambda>env args. (0, Some (Error ''no'')))\<rparr>) 7
      [''build'', ''t.json''] = (0, Some (Error ''no''))"
    by simp
  from main_exit_code [OF a] a_ok
  have ra: "suffix [CliCall 7 [''build'', ''t.json''], CleanupClients, Exit 3]
      (main example_world)" by blast
  from main_exit_code [OF b] b_err
  have rb: "suffix [CliCall 7 [''build'', ''t.json''],
            WriteTo Stderr ''Error executing CLI: %s\<newline>'' [S (error_text (Error ''no''))],
            CleanupClients, Exit 1]
      (main (example_world\<lparr>env_Cli := (\<lambda>env args. (0, Some (Error ''no'')))\<rparr>))" by blast
  from a b ra rb show ?thesis by simp
qed

text \<open>
  C4. When loading the configuration fails, or making the cache directory absolute or
  creating it fails, the run ends by writing a message to standard error and exiting
  with 1, and \<^verbatim>\<open>env.Cli\<close> is never called.
\<close>

theorem main_config_error:
  assumes "(\<exists>err. snd (loadConfig w lg) = Inl err) \<or>
           (\<exists>err. filepath_Abs w (cache_dir_name w) = Inl err) \<or>
           (\<exists>p err. filepath_Abs w (cache_dir_name w) = Inr p \<and> os_MkdirAll w p = Some err)"
  shows "(\<exists>f a. suffix [WriteTo Stderr f a, Exit 1] (main w)) \<and>
         (\<forall>env args. CliCall env args \<notin> set (main w))"
proof (cases rule: main_cases [of w])
  case (early pre f a)
  have "suffix [WriteTo Stderr f a, Exit 1] (main w)"
    unfolding early(1) by (rule suffix_appendI) simp
  moreover have "CliCall env args \<notin> set (main w)" for env args
    using early(1) startup_not_cli(1) [of pre env args, OF early(2)] by simp
  ultimately show ?thesis by blast
next
  case (env pre lg' config p)
  from env(3) [of lg] env(4) env(5) assms show ?thesis by auto
qed

theorem main_config_error_witness:
  "(snd (loadConfig (example_world\<lparr>decodeConfig := (\<lambda>r c. Inl (Error ''bad json''))\<rparr>) Discard)
      = Inl (Error ''bad json'') \<and>
    suffix [WriteTo Stderr ''Error loading configuration: \<newline>\<newline>%s\<newline>''
              [E (Error ''bad json'')], Exit 1]
      (main (example_world\<lparr>decodeConfig := (\<lambda>r c. Inl (Error ''bad json''))\<rparr>)) \<and>
    CliCall 7 [''build'', ''t.json'']
      \<notin> set (main (example_world\<lparr>decodeConfig := (\<lambda>r c. Inl (Error ''bad json''))\<rparr>))) \<and>
   (os_MkdirAll (example_world\<lparr>os_MkdirAll := (\<lambda>p. Some (Error ''denied''))\<rparr>)
      ''/work/packer_cache'' = Some (Error ''denied'') \<and>
    suffix [WriteTo Stderr ''Error preparing cache directory: \<newline>\<newline>%s\<newline>''
              [E (Error ''denied'')], Exit 1]
      (main (example_world\<lparr>os_MkdirAll := (\<lambda>p. Some (Error ''denied''))\<rparr>)) \<and>
    CliCall 7 [''build'', ''t.json'']
      \<notin> set (main (example_world\<lparr>os_MkdirAll := (\<lambda>p. Some (Error ''denied''))\<rparr>)))"
proof -
  let ?w1 = "example_world\<lparr>decodeConfig := (\<lambda>r c. Inl (Error ''bad json''))\<rparr>"
  let ?w2 = "example_world\<lparr>os_MkdirAll := (\<lambda>p. Some (Error ''denied''))\<rparr>"
  have h1: "snd (loadConfig ?w1 Discard) = Inl (Error ''bad json'')"
    by (simp add: loadConfig_def example_world_def)
  have h2: "filepath_Abs ?w2 (cache_dir_name ?w2) = Inr ''/work/packer_cache'' \<and>
            os_MkdirAll ?w2 ''/work/packer_cache'' = Some (Error ''denied'')"
    by (simp add: cache_dir_name_def Getenv_def example_world_def)
  have m1: "main ?w1 = [LogSetOutput Discard, SetGOMAXPROCS 4,
      LogPrintf Discard ''Packer Version: %s %s %s'' [S ''0.3.0'', S ''dev'', S ''abc''],
      LogPrintf Discard ''Packer Target OS/Arch: %s %s'' [S ''linux'', S ''amd64''],
      SetupStdin,
      WriteTo Stderr ''Error loading configuration: \<newline>\<newline>%s\<newline>''
        [E (Error ''bad json'')], Exit 1]"
    by (simp add: run_defs example_world_def)
  have m2: "main ?w2 = [LogSetOutput Discard, SetGOMAXPROCS 4,
      LogPrintf Discard ''Packer Version: %s %s %s'' [S ''0.3.0'', S ''dev'', S ''abc''],
      LogPrintf Discard ''Packer Target OS/Arch: %s %s'' [S ''linux'', S ''amd64''],
      SetupStdin, LogPrintf Discard ''Packer config: %+v'' [C [''build'']],
      MakeDirAll ''/work/packer_cache'' 493,
      WriteTo Stderr ''Error preparing cache directory: \<newline>\<newline>%s\<newline>''
        [E (Error ''denied'')], Exit 1]"
    by (simp add: run_defs example_world_def)
  from h1 have a1: "(\<exists>err. snd (loadConfig ?w1 Discard) = Inl err) \<or>
           (\<exists>err. filepath_Abs ?w1 (cache_dir_name ?w1) = Inl err) \<or>
           (\<exists>p err. filepath_Abs ?w1 (cache_dir_name ?w1) = Inr p \<and> os_MkdirAll ?w1 p = Some err)"
    by blast
  from h2 have a2: "(\<exists>err. snd (loadConfig ?w2 Discard) = Inl err) \<or>
           (\<exists>err. filepath_Abs ?w2 (cache_dir_name ?w2) = Inl err) \<or>
           (\<exists>p err. filepath_Abs ?w2 (cache_dir_name ?w2) = Inr p \<and> os_MkdirAll ?w2 p = Some err)"
    by blast
  have r1: "CliCall 7 [''build'', ''t.json''] \<notin> set (main ?w1)"
    using main_config_error [OF a1] by blast
  have r2: "CliCall 7 [''build'', ''t.json''] \<notin> set (main ?w2)"
    using main_config_error [OF a2] by blast
  have s1: "suffix [WriteTo Stderr ''Error loading configuration: \<newline>\<newline>%s\<newline>''
              [E (Error ''bad json'')], Exit 1] (main ?w1)"
    unfolding m1 by (simp add: suffix_Cons)
  have s2: "suffix [WriteTo Stderr ''Error preparing cache directory: \<newline>\<newline>%s\<newline>''
              [E (Error ''denied'')], Exit 1] (main ?w2)"
    unfolding m2 by (simp add: suffix_Cons)
  from h1 h2 r1 r2 s1 s2 show ?thesis by blast
qed

lemma environment_config_Ui:
  "Ui (environment_config w config cache machineReadable) =
     (if machineReadable then MachineReadableUi Stdout else Ui (DefaultEnvironmentConfig w))"
  by (simp add: environment_config_def Let_def)

text \<open>
  C5, as the code has it. When the run reaches the creation of the environment, the UI of
  the configuration handed to \<^verbatim>\<open>packer.NewEnvironment\<close> is a \<^verbatim>\<open>MachineReadableUi\<close> writing
  to standard output if the flag is among the arguments after the program name, and the
  UI of the default configuration otherwise; the arguments handed to \<^verbatim>\<open>env.Cli\<close> are the
  command-line arguments without the first occurrence of the flag.
\<close>

theorem main_machine_readable:
  assumes "os_Args w = prog # rest"
  shows "(\<forall>ec. NewEnvironmentCall ec \<in> set (main w) \<longrightarrow>
            Ui ec = (if machine_readable_flag \<in> set rest then MachineReadableUi Stdout
                     else Ui (DefaultEnvironmentConfig w))) \<and>
         (\<forall>env args. CliCall env args \<in> set (main w) \<longrightarrow>
            args = remove1 machine_readable_flag rest)"
proof (cases rule: main_cases [of w])
  case (early pre f a)
  have "NewEnvironmentCall ec \<notin> set (main w)" for ec
    using early(1) startup_not_cli(2) [of pre ec, OF early(2)] by simp
  moreover have "CliCall env args \<notin> set (main w)" for env args
    using early(1) startup_not_cli(1) [of pre env args, OF early(2)] by simp
  ultimately show ?thesis by blast
next
  case outer: (env pre lg config p)
  have pre_env: "NewEnvironmentCall ec \<notin> set pre" for ec
    by (rule startup_not_cli(2) [OF outer(2)])
  have pre_cli: "CliCall env args \<notin> set pre" for env args
    by (rule startup_not_cli(1) [OF outer(2)])
  have found: "snd (extractMachineReadable rest) = (machine_readable_flag \<in> set rest)"
    and args: "fst (extractMachineReadable rest) = remove1 machine_readable_flag rest"
    by (simp_all add: extractMachineReadable_remove1 remove1_idem)
  show ?thesis
  proof (cases rule: main_env_cases [of w lg config "FileCache p"])
    case no_args
    with assms show ?thesis by simp
  next
    case (env_fail prog' rest' ec err)
    from env_fail(1) assms have rest: "rest' = rest" by simp
    have ui: "Ui ec = (if machine_readable_flag \<in> set rest then MachineReadableUi Stdout
                     else Ui (DefaultEnvironmentConfig w))"
      unfolding env_fail(2) rest environment_config_Ui found ..
    show ?thesis
      using ui pre_env pre_cli unfolding outer(1) env_fail(4) by auto
  next
    case (cli prog' rest' ec env')
    from cli(1) assms have rest: "rest' = rest" by simp
    have ui: "Ui ec = (if machine_readable_flag \<in> set rest then MachineReadableUi Stdout
                     else Ui (DefaultEnvironmentConfig w))"
      unfolding cli(2) rest environment_config_Ui found ..
    show ?thesis
      using ui pre_env pre_cli main_cli_no_env [of _ w env' "fst (extractMachineReadable rest)"]
        main_cli_mem [of _ _ w env' "fst (extractMachineReadable rest)"] args
      unfolding outer(1) cli(4) rest by auto
  qed
qed

theorem main_machine_readable_witness:
  "os_Args example_world = ''packer'' # [''build'', ''-machine-readable'', ''t.json''] \<and>
   CliCall 7 [''build'', ''t.json''] \<in> set (main example_world) \<and>
   [''build'', ''t.json''] =
     remove1 machine_readable_flag [''build'', ''-machine-readable'', ''t.json'']"
proof -
  have a: "os_Args example_world = ''packer'' # [''build'', ''-machine-readable'', ''t.json'']"
    by (simp add: example_world_def)
  have b: "CliCall 7 [''build'', ''t.json''] \<in> set (main example_world)"
    by (simp add: run_defs example_world_def)
  from main_machine_readable [OF a] a b show ?thesis by blast
qed

text \<open>
  C5 as stated fails: with the flag twice on the command line the machine-readable UI is
  selected and \<^verbatim>\<open>env.Cli\<close> is still handed the flag.
\<close>

theorem main_machine_readable_counterexample:
  "machine_readable_flag \<in>
     set (tl (os_Args (example_world
        \<lparr>os_Args := [''packer'', ''-machine-readable'', ''-machine-readable'']\<rparr>))) \<and>
   CliCall 7 [''-machine-readable''] \<in>
     set (main (example_world
        \<lparr>os_Args := [''packer'', ''-machine-readable'', ''-machine-readable'']\<rparr>)) \<and>
   machine_readable_flag \<in> set [''-machine-readable'']"
  by (simp add: run_defs example_world_def)

end
